theory Spec2Isabelle
  imports Complex_Main "HOL-Library.Sublist"
begin

section \<open>Characters and the string library the translator relies on\<close>

text \<open>
  A Python \<^verbatim>\<open>str\<close> is a sequence of code points. This development covers the
  strings whose code points lie below 256 (ASCII and the Latin-1 supplement): a
  \<^typ>\<open>char\<close> is read as the code point of the same number, so \<^term>\<open>length\<close>
  is Python's \<^verbatim>\<open>len\<close>. The three character tables below are those of CPython
  on that range: \<^verbatim>\<open>str.isspace\<close> (also the regex class \<^verbatim>\<open>\s\<close> and the set
  that \<^verbatim>\<open>strip()\<close> and \<^verbatim>\<open>split()\<close> remove), the regex class \<^verbatim>\<open>\w\<close>, and
  \<^verbatim>\<open>str.lower\<close>. On this range two characters match under
  \<^verbatim>\<open>re.IGNORECASE\<close> exactly when their lower-case forms are equal.
\<close>

definition is_space :: "char \<Rightarrow> bool" where
  "is_space c =
     (let n = (of_char c :: nat)
      in (9 \<le> n \<and> n \<le> 13) \<or> (28 \<le> n \<and> n \<le> 32) \<or> n = 133 \<or> n = 160)"

definition is_word :: "char \<Rightarrow> bool" where
  "is_word c =
     (let n = (of_char c :: nat)
      in (48 \<le> n \<and> n \<le> 57) \<or> (65 \<le> n \<and> n \<le> 90) \<or> n = 95 \<or> (97 \<le> n \<and> n \<le> 122)
         \<or> n = 170 \<or> n = 178 \<or> n = 179 \<or> n = 181 \<or> n = 185 \<or> n = 186
         \<or> (188 \<le> n \<and> n \<le> 190) \<or> (192 \<le> n \<and> n \<le> 214) \<or> (216 \<le> n \<and> n \<le> 246)
         \<or> 248 \<le> n)"

definition lowerc :: "char \<Rightarrow> char" where
  "lowerc c =
     (let n = (of_char c :: nat)
      in if (65 \<le> n \<and> n \<le> 90) \<or> (192 \<le> n \<and> n \<le> 222 \<and> n \<noteq> 215)
         then char_of (n + 32) else c)"

text \<open>The regex class \<^verbatim>\<open>[a-z]\<close> and \<^verbatim>\<open>str.upper\<close> on it.\<close>

definition is_az :: "char \<Rightarrow> bool" where
  "is_az c = (let n = (of_char c :: nat) in 97 \<le> n \<and> n \<le> 122)"

definition upper_az :: "char \<Rightarrow> char" where
  "upper_az c = char_of ((of_char c :: nat) - 32)"

definition py_lower :: "string \<Rightarrow> string" where
  "py_lower s = map lowerc s"

text \<open>\<^verbatim>\<open>s.strip()\<close>: leading and trailing whitespace removed.\<close>

definition py_strip :: "string \<Rightarrow> string" where
  "py_strip s = rev (dropWhile is_space (rev (dropWhile is_space s)))"

text \<open>
  \<^verbatim>\<open>s.split()\<close>: the maximal runs of non-whitespace characters, in order. The
  first argument is the run being read.
\<close>

fun split_run :: "string \<Rightarrow> string \<Rightarrow> string list" where
  "split_run cur [] = (if cur = [] then [] else [cur])"
| "split_run cur (c # cs) =
     (if is_space c then (if cur = [] then split_run [] cs else cur # split_run [] cs)
      else split_run (cur @ [c]) cs)"

definition py_split :: "string \<Rightarrow> string list" where
  "py_split s = split_run [] s"

text \<open>\<^verbatim>\<open>' '.join(ws)\<close>.\<close>

fun join_space :: "string list \<Rightarrow> string" where
  "join_space [] = []"
| "join_space [w] = w"
| "join_space (w # v # ws) = w @ CHR '' '' # join_space (v # ws)"

text \<open>\<^verbatim>\<open>w in t\<close> on strings: \<open>w\<close> occurs in \<open>t\<close> as a contiguous substring.\<close>

fun contains :: "string \<Rightarrow> string \<Rightarrow> bool" where
  "contains w [] = (w = [])"
| "contains w (c # cs) = (prefix w (c # cs) \<or> contains w cs)"

text \<open>\<^verbatim>\<open>s.startswith(' ')\<close> and \<^verbatim>\<open>s.endswith(' ')\<close>.\<close>

definition starts_with :: "char \<Rightarrow> string \<Rightarrow> bool" where
  "starts_with c s = (case s of [] \<Rightarrow> False | x # _ \<Rightarrow> x = c)"

definition ends_with :: "char \<Rightarrow> string \<Rightarrow> bool" where
  "ends_with c s = starts_with c (rev s)"

section \<open>The terminology dictionary\<close>

text \<open>
  The JSON file \<^verbatim>\<open>terminology_dict.json\<close>, as \<^verbatim>\<open>load_terminology\<close> returns it.
  Each Python dict is the list of its items in insertion order (keys distinct), and
  a lookup is \<^term>\<open>map_of\<close>. A key that the file lacks reads as the empty dict
  through \<^verbatim>\<open>.get(key, {})\<close>, and a missing file is the dict with no entries:
  \<^verbatim>\<open>admin_ui_terms.turkish_to_english\<close>, \<^verbatim>\<open>admin_ui_terms.english_to_german\<close> and
  \<^verbatim>\<open>quality_patterns.common_mistakes\<close> (language to correct term to wrong variants).
\<close>

record terminology =
  turkish_to_english :: "(string \<times> string) list"
  english_to_german :: "(string \<times> string) list"
  common_mistakes :: "(string \<times> (string \<times> string list) list) list"

definition empty_terminology :: terminology where
  "empty_terminology =
     \<lparr>turkish_to_english = [], english_to_german = [], common_mistakes = []\<rparr>"

section \<open>QualityChecker\<close>

text \<open>
  An issue is the dict the checker appends: its \<^verbatim>\<open>type\<close> tag, the wrong and the
  correct term where it has them, and its \<^verbatim>\<open>confidence\<close>. The confidences are the
  float literals 0.9, 1.0, 0.7 and 0.8, which are only stored.
\<close>

record issue =
  issue_type :: string
  wrong_term :: "string option"
  correct_term :: "string option"
  confidence :: real

definition common_mistake :: "string \<Rightarrow> string \<Rightarrow> issue" where
  "common_mistake wrong correct =
     \<lparr>issue_type = ''common_mistake'', wrong_term = Some wrong,
      correct_term = Some correct, confidence = 0.9\<rparr>"

definition plain_issue :: "string \<Rightarrow> real \<Rightarrow> issue" where
  "plain_issue tag conf =
     \<lparr>issue_type = tag, wrong_term = None, correct_term = None, confidence = conf\<rparr>"

text \<open>
  \<^verbatim>\<open>check_common_mistakes\<close>: the outer loop runs over the items of
  \<^verbatim>\<open>common_mistakes[target_lang]\<close>, the inner loop over the wrong variants of one
  correct term; a variant is reported when its lower-case form is a substring of
  the lower-case text.
\<close>

fun scan_variants :: "string \<Rightarrow> string \<Rightarrow> string list \<Rightarrow> issue list" where
  "scan_variants text_lower correct [] = []"
| "scan_variants text_lower correct (wrong # ws) =
     (if contains (py_lower wrong) text_lower
      then common_mistake wrong correct # scan_variants text_lower correct ws
      else scan_variants text_lower correct ws)"

fun scan_terms :: "string \<Rightarrow> (string \<times> string list) list \<Rightarrow> issue list" where
  "scan_terms text_lower [] = []"
| "scan_terms text_lower ((correct, wrong_variants) # rest) =
     scan_variants text_lower correct wrong_variants @ scan_terms text_lower rest"

definition mistakes_of :: "terminology \<Rightarrow> string \<Rightarrow> (string \<times> string list) list" where
  "mistakes_of d target_lang =
     (case map_of (common_mistakes d) target_lang of None \<Rightarrow> [] | Some m \<Rightarrow> m)"

definition check_common_mistakes :: "terminology \<Rightarrow> string \<Rightarrow> string \<Rightarrow> issue list" where
  "check_common_mistakes d text target_lang =
     scan_terms (py_lower text) (mistakes_of d target_lang)"

text \<open>
  \<^verbatim>\<open>re.findall(r'<[^>]+>', s)\<close>: scanning from the left, a match starts at a
  \<^verbatim>\<open><\<close> that is followed by at least one character other than \<^verbatim>\<open>>\<close> and
  later by a \<^verbatim>\<open>>\<close>; it ends at the first such \<^verbatim>\<open>>\<close>, and the scan goes on
  behind it.
\<close>

function findall_tags :: "string \<Rightarrow> string list" where
  "findall_tags [] = []"
| "findall_tags (c # cs) =
     (if c = CHR ''<'' \<and> takeWhile (\<lambda>x. x \<noteq> CHR ''>'') cs \<noteq> [] \<and> CHR ''>'' \<in> set cs
      then (c # takeWhile (\<lambda>x. x \<noteq> CHR ''>'') cs @ ''>'')
           # findall_tags (tl (dropWhile (\<lambda>x. x \<noteq> CHR ''>'') cs))
      else findall_tags cs)"
  by pat_completeness auto
termination
proof (relation "measure length")
  fix c :: char and cs :: string
  have "length (tl (dropWhile (\<lambda>x. x \<noteq> CHR ''>'') cs)) \<le> length cs"
    using length_dropWhile_le [of "\<lambda>x. x \<noteq> CHR ''>''" cs] by simp
  then show "(tl (dropWhile (\<lambda>x. x \<noteq> CHR ''>'') cs), c # cs) \<in> measure length"
    by simp
qed simp_all

text \<open>
  The result of \<^verbatim>\<open>calculate_quality_score\<close>. The score starts as the float 100.0
  and only has 20, 15 and 10 subtracted or is set to 0, so every value it takes is
  an integer that a double holds exactly; it is an \<^typ>\<open>int\<close> here. The test
  \<^verbatim>\<open>len(translated) < len(original) * 0.2\<close> compares an integer with the double
  nearest to a fifth of a length, which for lengths below \<open>2^50\<close> decides the same
  as \<open>5 * len(translated) < len(original)\<close>.
\<close>

record quality =
  score :: int
  issues :: "issue list"
  needs_review :: bool

definition calculate_quality_score ::
  "terminology \<Rightarrow> string \<Rightarrow> string \<Rightarrow> string \<Rightarrow> quality" where
  "calculate_quality_score d original translated target_lang =
     (let mistakes = check_common_mistakes d translated target_lang;
          (score1, issues1) =
             fold (\<lambda>mistake (sc, iss). (sc - 20, iss @ [mistake])) mistakes (100, []);
          (score2, issues2) =
             (if py_strip translated = []
              then (0, issues1 @ [plain_issue ''empty_translation'' 1.0])
              else (score1, issues1));
          (score3, issues3) =
             (if 5 * length translated < length original
              then (score2 - 15, issues2 @ [plain_issue ''too_short'' 0.7])
              else (score2, issues2));
          orig_tags = set (findall_tags original);
          trans_tags = set (findall_tags translated);
          (score4, issues4) =
             (if orig_tags \<noteq> trans_tags
              then (score3 - 10, issues3 @ [plain_issue ''html_mismatch'' 0.8])
              else (score3, issues3))
      in \<lparr>score = max 0 score4, issues = issues4, needs_review = score4 < 70\<rparr>)"

text \<open>
  The three rule outcomes and the list of dictionary entries that the statements
  below speak about: an entry is one wrong variant listed under one correct term of
  the target language.
\<close>

definition too_short :: "string \<Rightarrow> string \<Rightarrow> bool" where
  "too_short original translated = (5 * length translated < length original)"

definition html_mismatch :: "string \<Rightarrow> string \<Rightarrow> bool" where
  "html_mismatch original translated =
     (set (findall_tags original) \<noteq> set (findall_tags translated))"

definition mistake_entries :: "terminology \<Rightarrow> string \<Rightarrow> (string \<times> string) list" where
  "mistake_entries d target_lang =
     concat (map (\<lambda>(correct, ws). map (Pair correct) ws) (mistakes_of d target_lang))"

definition matching_entries ::
  "terminology \<Rightarrow> string \<Rightarrow> string \<Rightarrow> (string \<times> string) list" where
  "matching_entries d target_lang text =
     filter (\<lambda>(correct, wrong). contains (py_lower wrong) (py_lower text))
       (mistake_entries d target_lang)"

definition accumulated_score :: "terminology \<Rightarrow> string \<Rightarrow> string \<Rightarrow> string \<Rightarrow> int" where
  "accumulated_score d original translated target_lang =
     (if py_strip translated = [] then 0
      else 100 - 20 * int (length (matching_entries d target_lang translated)))
     - (if too_short original translated then 15 else 0)
     - (if html_mismatch original translated then 10 else 0)"

text \<open>The number of positions of \<open>t\<close> at which \<open>w\<close> occurs.\<close>

fun occurrences :: "string \<Rightarrow> string \<Rightarrow> nat" where
  "occurrences w [] = 0"
| "occurrences w (c # cs) = (if prefix w (c # cs) then 1 else 0) + occurrences w cs"

text \<open>A small dictionary for the concrete evaluations.\<close>

definition sample_terminology :: terminology where
  "sample_terminology =
     \<lparr>turkish_to_english = [(''ayarlar'', ''settings''), (''kapat'', [])],
      english_to_german = [(''settings'', ''Einstellungen'')],
      common_mistakes =
        [(''german'', [(''Anmelden'', [''login'', ''log in''])]),
         (''english'', [(''logout'', [''exit'', ''out''])])]\<rparr>"

subsection \<open>The scorer in closed form\<close>

lemma fold_mistakes:
  "fold (\<lambda>mistake (sc, iss). (sc - 20, iss @ [mistake])) ms (s0, i0) =
     (s0 - 20 * int (length ms), i0 @ ms)"
  by (induction ms arbitrary: s0 i0) auto

lemma scan_variants_filter:
  "scan_variants txt c ws =
     map (\<lambda>(correct, wrong). common_mistake wrong correct)
       (filter (\<lambda>(correct, wrong). contains (py_lower wrong) txt) (map (Pair c) ws))"
  by (induction ws) auto

lemma scan_terms_filter:
  "scan_terms txt ms =
     map (\<lambda>(correct, wrong). common_mistake wrong correct)
       (filter (\<lambda>(correct, wrong). contains (py_lower wrong) txt)
          (concat (map (\<lambda>(correct, ws). map (Pair correct) ws) ms)))"
  by (induction ms) (auto simp: scan_variants_filter)

lemma check_common_mistakes_entries:
  "check_common_mistakes d text target_lang =
     map (\<lambda>(correct, wrong). common_mistake wrong correct)
       (matching_entries d target_lang text)"
  by (simp add: check_common_mistakes_def matching_entries_def mistake_entries_def
      scan_terms_filter)

lemma quality_closed_form:
  "calculate_quality_score d original translated target_lang =
     \<lparr>score = max 0 (accumulated_score d original translated target_lang),
      issues = check_common_mistakes d translated target_lang
        @ (if py_strip translated = [] then [plain_issue ''empty_translation'' 1.0] else [])
        @ (if too_short original translated then [plain_issue ''too_short'' 0.7] else [])
        @ (if html_mismatch original translated then [plain_issue ''html_mismatch'' 0.8] else []),
      needs_review = (accumulated_score d original translated target_lang < 70)\<rparr>"
  by (simp add: calculate_quality_score_def Let_def fold_mistakes accumulated_score_def
      too_short_def html_mismatch_def check_common_mistakes_entries)





lemmas evaluate_sample =
  sample_terminology_def check_common_mistakes_def mistakes_of_def py_lower_def lowerc_def
  common_mistake_def plain_issue_def py_strip_def is_space_def Let_def char_of_eq_iff
  matching_entries_def mistake_entries_def too_short_def html_mismatch_def

subsection \<open>Claims about the scorer\<close>

text \<open>
  C2, as the code has it. The claim counts occurrences: a text that holds one wrong
  variant twice would lose 40. The checker asks only whether a variant occurs
  (\<^verbatim>\<open>wrong_term.lower() in text_lower\<close>), so the text below, which holds
  \<open>login\<close> twice, loses 20 and gets one issue.
\<close>

theorem common_mistake_counted_per_occurrence_counterexample:
  "occurrences (py_lower ''login'') (py_lower ''login login'') = 2
   \<and> score (calculate_quality_score sample_terminology ''giris giris'' ''login login'' ''german'') = 80
   \<and> issues (calculate_quality_score sample_terminology ''giris giris'' ''login login'' ''german'')
       = [common_mistake ''login'' ''Anmelden'']"
  by (simp add: calculate_quality_score_def evaluate_sample)

text \<open>
  C2, amended: the scorer subtracts 20 and appends a \<open>common_mistake\<close> issue with
  confidence 0.9 once for every entry (correct term, wrong variant) of the target
  language whose wrong variant occurs, case-insensitively, as a substring of the
  translated text, however often it occurs there. The issues come first in the
  list, in dictionary order, and on a text that is not blank the final score is
  100 less 20 for each such entry, less the too-short and tag penalties, floored
  at 0.
\<close>

theorem common_mistake_penalty_per_entry:
  "check_common_mistakes d translated target_lang =
     map (\<lambda>(correct, wrong). common_mistake wrong correct)
       (matching_entries d target_lang translated)
   \<and> (\<forall>i \<in> set (check_common_mistakes d translated target_lang).
         issue_type i = ''common_mistake'' \<and> confidence i = 0.9)
   \<and> take (length (matching_entries d target_lang translated))
        (issues (calculate_quality_score d original translated target_lang))
      = check_common_mistakes d translated target_lang
   \<and> (py_strip translated \<noteq> [] \<longrightarrow>
        score (calculate_quality_score d original translated target_lang) =
          max 0 (100 - 20 * int (length (matching_entries d target_lang translated))
                 - (if too_short original translated then 15 else 0)
                 - (if html_mismatch original translated then 10 else 0)))"
proof -
  have entries: "check_common_mistakes d translated target_lang =
     map (\<lambda>(correct, wrong). common_mistake wrong correct)
       (matching_entries d target_lang translated)"
    by (rule check_common_mistakes_entries)
  have tags: "\<forall>i \<in> set (check_common_mistakes d translated target_lang).
         issue_type i = ''common_mistake'' \<and> confidence i = 0.9"
    by (auto simp: entries common_mistake_def)
  have first: "take (length (matching_entries d target_lang translated))
        (issues (calculate_quality_score d original translated target_lang))
      = check_common_mistakes d translated target_lang"
    by (simp add: quality_closed_form entries)
  have total: "py_strip translated \<noteq> [] \<longrightarrow>
        score (calculate_quality_score d original translated target_lang) =
          max 0 (100 - 20 * int (length (matching_entries d target_lang translated))
                 - (if too_short original translated then 15 else 0)
                 - (if html_mismatch original translated then 10 else 0))"
    by (simp add: quality_closed_form accumulated_score_def)
  from entries tags first total show ?thesis by blast
qed

theorem common_mistake_penalty_per_entry_witness:
  "py_strip ''login login'' \<noteq> []
   \<and> matching_entries sample_terminology ''german'' ''login login'' = [(''Anmelden'', ''login'')]
   \<and> check_common_mistakes sample_terminology ''login login'' ''german''
       = [common_mistake ''login'' ''Anmelden'']
   \<and> score (calculate_quality_score sample_terminology ''giris giris'' ''login login'' ''german'')
       = 80"
  using common_mistake_penalty_per_entry
    [of sample_terminology "''login login''" "''german''" "''giris giris''"]
  by (simp add: evaluate_sample)

text \<open>
  C3: a translation that is empty after trimming whitespace gets the score 0 and
  \<open>needs_review\<close>, whatever else applies, and its issues hold
  \<open>empty_translation\<close> with confidence 1.0.
\<close>

theorem empty_translation_scores_zero:
  assumes "py_strip translated = []"
  shows "score (calculate_quality_score d original translated target_lang) = 0
     \<and> needs_review (calculate_quality_score d original translated target_lang)
     \<and> plain_issue ''empty_translation'' 1.0
         \<in> set (issues (calculate_quality_score d original translated target_lang))
     \<and> confidence (plain_issue ''empty_translation'' 1.0) = 1.0"
  using assms by (simp add: quality_closed_form accumulated_score_def plain_issue_def)

theorem empty_translation_scores_zero_witness:
  "py_strip ''  '' = []
   \<and> score (calculate_quality_score sample_terminology ''Herhangi bir metin'' ''  '' ''german'') = 0
   \<and> needs_review (calculate_quality_score sample_terminology ''Herhangi bir metin'' ''  '' ''german'')
   \<and> plain_issue ''empty_translation'' 1.0
       \<in> set (issues (calculate_quality_score sample_terminology ''Herhangi bir metin'' ''  '' ''german''))"
proof -
  have blank: "py_strip ''  '' = []"
    by (simp add: py_strip_def is_space_def)
  from empty_translation_scores_zero [OF blank, of sample_terminology "''Herhangi bir metin''" "''german''"]
  show ?thesis using blank by simp
qed




section \<open>TerminologyTranslator\<close>

text \<open>
  \<^verbatim>\<open>get_term_translation\<close>: an exact lookup of the lower-case text in the dictionary
  of the language pair; \<^term>\<open>None\<close> is Python's \<^verbatim>\<open>None\<close>, for a missing term and
  for any pair other than the two supported ones.
\<close>

definition get_term_translation ::
  "terminology \<Rightarrow> string \<Rightarrow> string \<Rightarrow> string \<Rightarrow> string option" where
  "get_term_translation d text source_lang target_lang =
     (if source_lang = ''turkish'' \<and> target_lang = ''english''
      then map_of (turkish_to_english d) (py_lower text)
      else if source_lang = ''english'' \<and> target_lang = ''german''
      then map_of (english_to_german d) (py_lower text)
      else None)"

text \<open>\<^verbatim>\<open>re.sub(r'[^\w\s]', '', word)\<close>: every character that is neither a word
  character nor whitespace is removed.\<close>

definition strip_punct :: "string \<Rightarrow> string" where
  "strip_punct word = filter (\<lambda>c. is_word c \<or> is_space c) word"

text \<open>
  The loop over the words of \<^verbatim>\<open>translate_with_terminology\<close>, with its two
  variables \<^verbatim>\<open>translated_words\<close> and \<^verbatim>\<open>has_terminology\<close>. The test
  \<^verbatim>\<open>if term_trans:\<close> is Python's truth value of an optional string: false for
  \<^verbatim>\<open>None\<close> and for the empty string.
\<close>

fun translate_words ::
  "terminology \<Rightarrow> string \<Rightarrow> string \<Rightarrow> string list \<Rightarrow> string list \<times> bool
     \<Rightarrow> string list \<times> bool" where
  "translate_words d source_lang target_lang [] (translated_words, has_terminology) =
     (translated_words, has_terminology)"
| "translate_words d source_lang target_lang (word # ws) (translated_words, has_terminology) =
     (let clean_word = py_lower (strip_punct word)
      in case get_term_translation d clean_word source_lang target_lang of
           None \<Rightarrow>
             translate_words d source_lang target_lang ws
               (translated_words @ [word], has_terminology)
         | Some term_trans \<Rightarrow>
             if term_trans \<noteq> []
             then translate_words d source_lang target_lang ws
                    (translated_words @ [term_trans], True)
             else translate_words d source_lang target_lang ws
                    (translated_words @ [word], has_terminology))"

definition word_by_word ::
  "terminology \<Rightarrow> string \<Rightarrow> string \<Rightarrow> string \<Rightarrow> string \<times> bool" where
  "word_by_word d text source_lang target_lang =
     (let words = py_split text
      in if length words > 1
         then (let (translated_words, has_terminology) =
                     translate_words d source_lang target_lang words ([], False)
               in if has_terminology then (join_space translated_words, True)
                  else (text, False))
         else (text, False))"

definition translate_with_terminology ::
  "terminology \<Rightarrow> string \<Rightarrow> string \<Rightarrow> string \<Rightarrow> string \<times> bool" where
  "translate_with_terminology d text source_lang target_lang =
     (case get_term_translation d text source_lang target_lang of
        None \<Rightarrow> word_by_word d text source_lang target_lang
      | Some term_translation \<Rightarrow>
          if term_translation \<noteq> [] then (term_translation, True)
          else word_by_word d text source_lang target_lang)"

text \<open>
  What the specification says of one token: the dictionary entry of the token with
  punctuation stripped and in lower case, if there is a usable one.
\<close>

definition token_translation ::
  "terminology \<Rightarrow> string \<Rightarrow> string \<Rightarrow> string \<Rightarrow> string option" where
  "token_translation d source_lang target_lang word =
     (case get_term_translation d (py_lower (strip_punct word)) source_lang target_lang of
        None \<Rightarrow> None
      | Some tr \<Rightarrow> if tr = [] then None else Some tr)"

definition substitute_token ::
  "terminology \<Rightarrow> string \<Rightarrow> string \<Rightarrow> string \<Rightarrow> string" where
  "substitute_token d source_lang target_lang word =
     (case token_translation d source_lang target_lang word of
        None \<Rightarrow> word | Some tr \<Rightarrow> tr)"

subsection \<open>The word loop as a map\<close>

lemma translate_words_map:
  "translate_words d s t ws (acc, has) =
     (acc @ map (substitute_token d s t) ws,
      has \<or> (\<exists>w \<in> set ws. token_translation d s t w \<noteq> None))"
  by (induction ws arbitrary: acc has)
    (auto simp: substitute_token_def token_translation_def Let_def split: option.splits)

lemma split_run_nonempty: "w \<in> set (split_run cur s) \<Longrightarrow> w \<noteq> []"
  by (induction s arbitrary: cur) (auto split: if_splits)

lemma py_split_nonempty: "w \<in> set (py_split s) \<Longrightarrow> w \<noteq> []"
  unfolding py_split_def by (rule split_run_nonempty)

lemma substitute_token_nonempty: "w \<noteq> [] \<Longrightarrow> substitute_token d s t w \<noteq> []"
  by (auto simp: substitute_token_def token_translation_def split: option.splits if_splits)

lemma join_space_nonempty: "1 < length ws \<Longrightarrow> join_space ws \<noteq> []"
  by (cases ws rule: join_space.cases) auto

lemma word_by_word_map:
  "word_by_word d text s t =
     (if 1 < length (py_split text)
         \<and> (\<exists>w \<in> set (py_split text). token_translation d s t w \<noteq> None)
      then (join_space (map (substitute_token d s t) (py_split text)), True)
      else (text, False))"
  by (simp add: word_by_word_def Let_def translate_words_map)

lemmas evaluate_terms =
  sample_terminology_def get_term_translation_def translate_with_terminology_def
  word_by_word_def token_translation_def substitute_token_def strip_punct_def py_split_def
  py_lower_def lowerc_def is_space_def is_word_def Let_def char_of_eq_iff

subsection \<open>Claims about the terminology matcher\<close>

text \<open>
  C5, as the code has it. The claim applies the token-level substitution to
  single-token texts too. The code runs the word loop only under
  \<^verbatim>\<open>if len(words) > 1\<close>: the one-word text \<open>Ayarlar!\<close>, whose token has the
  dictionary entry \<open>settings\<close>, comes back unchanged with \<open>usedTerminology = false\<close>.
\<close>

theorem single_token_substitution_counterexample:
  "get_term_translation sample_terminology ''Ayarlar!'' ''turkish'' ''english'' = None
   \<and> py_split ''Ayarlar!'' = [''Ayarlar!'']
   \<and> token_translation sample_terminology ''turkish'' ''english'' ''Ayarlar!'' = Some ''settings''
   \<and> translate_with_terminology sample_terminology ''Ayarlar!'' ''turkish'' ''english''
       = (''Ayarlar!'', False)"
  by (simp add: evaluate_terms)

text \<open>
  C5, amended: for every text with no usable whole-string match, a text of two or
  more whitespace-separated tokens has every token looked up (punctuation stripped,
  lower case) and replaced by its match or kept; if at least one token was replaced
  the space-joined tokens are returned with \<open>usedTerminology = true\<close>, else the
  original text with \<open>false\<close>. A text of at most one token is returned unchanged
  with \<open>usedTerminology = false\<close>, without any token lookup.
\<close>

theorem word_level_substitution:
  assumes "get_term_translation d text source_lang target_lang = None
           \<or> get_term_translation d text source_lang target_lang = Some []"
  shows "translate_with_terminology d text source_lang target_lang =
           (if 1 < length (py_split text)
               \<and> (\<exists>w \<in> set (py_split text).
                     token_translation d source_lang target_lang w \<noteq> None)
            then (join_space (map (substitute_token d source_lang target_lang) (py_split text)),
                  True)
            else (text, False))"
  using assms by (elim disjE) (simp_all add: translate_with_terminology_def word_by_word_map)

theorem word_level_substitution_witness:
  "get_term_translation sample_terminology ''Tum ayarlar! kaydedildi'' ''turkish'' ''english''
     = None
   \<and> py_split ''Tum ayarlar! kaydedildi'' = [''Tum'', ''ayarlar!'', ''kaydedildi'']
   \<and> translate_with_terminology sample_terminology ''Tum ayarlar! kaydedildi''
        ''turkish'' ''english'' = (''Tum settings kaydedildi'', True)"
proof -
  have none: "get_term_translation sample_terminology ''Tum ayarlar! kaydedildi''
      ''turkish'' ''english'' = None"
    by (simp add: evaluate_terms)
  have "translate_with_terminology sample_terminology ''Tum ayarlar! kaydedildi''
      ''turkish'' ''english'' = (''Tum settings kaydedildi'', True)"
    using word_level_substitution [OF disjI1, OF none] by (simp add: evaluate_terms)
  with none show ?thesis by (simp add: evaluate_terms)
qed

text \<open>
  C10: a dictionary entry whose translation is the empty string counts as absent.
  When the whole text and every token have no entry or an empty one, the text comes
  back unchanged with \<open>usedTerminology = false\<close>; a token whose entry is empty keeps
  its place in the word list as it was; no token of the word list is ever the empty
  string; and a result with \<open>usedTerminology = true\<close> is never the empty string.
\<close>

theorem empty_term_translation_is_absent:
  "((get_term_translation d text s t = None \<or> get_term_translation d text s t = Some [])
      \<and> (\<forall>w \<in> set (py_split text).
            get_term_translation d (py_lower (strip_punct w)) s t = None
            \<or> get_term_translation d (py_lower (strip_punct w)) s t = Some [])
     \<longrightarrow> translate_with_terminology d text s t = (text, False))
   \<and> (\<forall>i < length (py_split text).
         get_term_translation d (py_lower (strip_punct (py_split text ! i))) s t = Some []
         \<longrightarrow> fst (translate_words d s t (py_split text) ([], False)) ! i = py_split text ! i)
   \<and> [] \<notin> set (fst (translate_words d s t (py_split text) ([], False)))
   \<and> (snd (translate_with_terminology d text s t)
        \<longrightarrow> fst (translate_with_terminology d text s t) \<noteq> [])"
proof -
  have absent: "translate_with_terminology d text s t = (text, False)"
    if "get_term_translation d text s t = None \<or> get_term_translation d text s t = Some []"
      and "\<forall>w \<in> set (py_split text).
            get_term_translation d (py_lower (strip_punct w)) s t = None
            \<or> get_term_translation d (py_lower (strip_punct w)) s t = Some []"
  proof -
    have "\<forall>w \<in> set (py_split text). token_translation d s t w = None"
      using that(2) by (auto simp: token_translation_def)
    with that(1) show ?thesis
      by (auto simp: translate_with_terminology_def word_by_word_map)
  qed
  have kept: "fst (translate_words d s t (py_split text) ([], False)) ! i = py_split text ! i"
    if "i < length (py_split text)"
      and "get_term_translation d (py_lower (strip_punct (py_split text ! i))) s t = Some []"
    for i
    using that by (simp add: translate_words_map substitute_token_def token_translation_def)
  have tokens: "[] \<notin> set (fst (translate_words d s t (py_split text) ([], False)))"
    using py_split_nonempty [of _ "text"] substitute_token_nonempty [of _ d s t]
    by (simp add: translate_words_map image_iff) metis
  have used: "fst (translate_with_terminology d text s t) \<noteq> []"
    if "snd (translate_with_terminology d text s t)"
    using that
    by (auto simp: translate_with_terminology_def word_by_word_map join_space_nonempty
        split: option.splits if_splits)
  from absent kept tokens used show ?thesis by blast
qed

theorem empty_term_translation_is_absent_witness:
  "get_term_translation sample_terminology ''Kapat'' ''turkish'' ''english'' = Some []
   \<and> translate_with_terminology sample_terminology ''Kapat'' ''turkish'' ''english''
       = (''Kapat'', False)
   \<and> get_term_translation sample_terminology (py_lower (strip_punct ''kapat!''))
        ''turkish'' ''english'' = Some []
   \<and> translate_with_terminology sample_terminology ''Pencereyi kapat!'' ''turkish'' ''english''
       = (''Pencereyi kapat!'', False)
   \<and> fst (translate_words sample_terminology ''turkish'' ''english''
            (py_split ''Pencereyi kapat!'') ([], False)) = [''Pencereyi'', ''kapat!'']"
  using empty_term_translation_is_absent
    [of sample_terminology "''Kapat''" "''turkish''" "''english''"]
    empty_term_translation_is_absent
    [of sample_terminology "''Pencereyi kapat!''" "''turkish''" "''english''"]
  by (simp add: evaluate_terms)

section \<open>PostProcessor\<close>

subsection \<open>Regular-expression substitution with a literal pattern\<close>

text \<open>
  \<open>ci_prefix w t\<close>: the literal \<open>w\<close> matches at the head of \<open>t\<close> under
  \<^verbatim>\<open>re.IGNORECASE\<close>.
\<close>

fun ci_prefix :: "string \<Rightarrow> string \<Rightarrow> bool" where
  "ci_prefix [] t = True"
| "ci_prefix (a # w) [] = False"
| "ci_prefix (a # w) (x # t) = (lowerc x = lowerc a \<and> ci_prefix w t)"

subsection \<open>Replacement templates\<close>

text \<open>
  The replacement argument of \<^verbatim>\<open>re.sub\<close> is a template, parsed by
  \<^verbatim>\<open>re._parser.parse_template\<close> (CPython 3.11) before any match is replaced. The
  tokenizer reads a backslash together with the character behind it; a backslash at
  the very end is an error. The pattern here is an escaped literal and has no
  groups, so of the group references only group 0, the whole match, exists:
  \<^verbatim>\<open>\g<name>\<close> is accepted when \<^verbatim>\<open>int(name)\<close> is 0, and \<^verbatim>\<open>\1\<close> to \<^verbatim>\<open>\99\<close>
  are rejected. \<^verbatim>\<open>\0\<close> with up to two octal digits and three octal digits up to
  \<^verbatim>\<open>\377\<close> give the character of that code, \<^verbatim>\<open>\a \b \f \n \r \t \v \\\<close> give
  their control character or the backslash, a backslash before any other ASCII
  letter is rejected, and a backslash before anything else stays as the two
  characters it is.
\<close>

datatype token = Plain char | Esc char

fun tokenize_template :: "string \<Rightarrow> token list option" where
  "tokenize_template [] = Some []"
| "tokenize_template (c # cs) =
     (if c = CHR 0x5C
      then (case cs of
              [] \<Rightarrow> None
            | e # rest \<Rightarrow> map_option (Cons (Esc e)) (tokenize_template rest))
      else map_option (Cons (Plain c)) (tokenize_template cs))"

fun token_text :: "token \<Rightarrow> string" where
  "token_text (Plain c) = [c]"
| "token_text (Esc c) = [CHR 0x5C, c]"

text \<open>\<^verbatim>\<open>getuntil(">")\<close>: the text of the tokens up to the next \<^verbatim>\<open>>\<close>, and the
  tokens behind it.\<close>

fun group_name :: "token list \<Rightarrow> (string \<times> token list) option" where
  "group_name [] = None"
| "group_name (tok # ts) =
     (if tok = Plain CHR ''>'' then Some ([], ts)
      else map_option (\<lambda>(name, rest). (token_text tok @ name, rest)) (group_name ts))"

definition is_digit :: "char \<Rightarrow> bool" where
  "is_digit c = (let n = (of_char c :: nat) in 48 \<le> n \<and> n \<le> 57)"

definition is_octal :: "char \<Rightarrow> bool" where
  "is_octal c = (let n = (of_char c :: nat) in 48 \<le> n \<and> n \<le> 55)"

definition digit_value :: "char \<Rightarrow> nat" where
  "digit_value c = (of_char c :: nat) - 48"

definition is_ascii_letter :: "char \<Rightarrow> bool" where
  "is_ascii_letter c =
     (let n = (of_char c :: nat) in (65 \<le> n \<and> n \<le> 90) \<or> (97 \<le> n \<and> n \<le> 122))"

text \<open>
  \<^verbatim>\<open>int(name) == 0\<close>: \<^verbatim>\<open>int\<close> drops the whitespace it knows at both ends
  (tab to carriage return, space, U+0085, U+00A0), takes one sign, and then wants
  digits with single underscores between them; for the value 0 every digit is
  \<^verbatim>\<open>0\<close>.
\<close>

fun zero_digits :: "string \<Rightarrow> bool" where
  "zero_digits [] = False"
| "zero_digits [c] = (c = CHR ''0'')"
| "zero_digits (c # d # cs) =
     (c = CHR ''0'' \<and> (if d = CHR ''_'' then zero_digits cs else zero_digits (d # cs)))"

definition int_space :: "char \<Rightarrow> bool" where
  "int_space c =
     (let n = (of_char c :: nat) in (9 \<le> n \<and> n \<le> 13) \<or> n = 32 \<or> n = 133 \<or> n = 160)"

definition int_is_zero :: "string \<Rightarrow> bool" where
  "int_is_zero name =
     (case rev (dropWhile int_space (rev (dropWhile int_space name))) of
        [] \<Rightarrow> False
      | c # cs \<Rightarrow>
          if c = CHR ''+'' \<or> c = CHR ''-'' then zero_digits cs else zero_digits (c # cs))"

text \<open>A parsed template: literal characters and references to the whole match.\<close>

datatype piece = Lit char | Whole

definition escape_char :: "char \<Rightarrow> char option" where
  "escape_char c =
     (if c = CHR ''a'' then Some (CHR 0x07)
      else if c = CHR ''b'' then Some (CHR 0x08)
      else if c = CHR ''f'' then Some (CHR 0x0C)
      else if c = CHR ''n'' then Some (CHR 0x0A)
      else if c = CHR ''r'' then Some (CHR 0x0D)
      else if c = CHR ''t'' then Some (CHR 0x09)
      else if c = CHR ''v'' then Some (CHR 0x0B)
      else if c = CHR 0x5C then Some (CHR 0x5C)
      else None)"

lemma group_name_shorter: "group_name ts = Some (name, rest) \<Longrightarrow> length rest < length ts"
  by (induction ts arbitrary: name) (auto split: if_splits)

function parse_tokens :: "token list \<Rightarrow> piece list option" where
  "parse_tokens [] = Some []"
| "parse_tokens (Plain c # ts) = map_option (Cons (Lit c)) (parse_tokens ts)"
| "parse_tokens (Esc c # ts) =
     (if c = CHR ''g'' then
        (case ts of
           [] \<Rightarrow> None
         | t1 # ts1 \<Rightarrow>
             if t1 \<noteq> Plain CHR ''<'' then None
             else (case group_name ts1 of
                     None \<Rightarrow> None
                   | Some (name, rest) \<Rightarrow>
                       if int_is_zero name then map_option (Cons Whole) (parse_tokens rest)
                       else None))
      else if c = CHR ''0'' then
        (case ts of
           Plain d # ts1 \<Rightarrow>
             if is_octal d then
               (case ts1 of
                  Plain e # ts2 \<Rightarrow>
                    if is_octal e
                    then map_option (Cons (Lit (char_of (8 * digit_value d + digit_value e))))
                           (parse_tokens ts2)
                    else map_option (Cons (Lit (char_of (digit_value d)))) (parse_tokens ts1)
                | _ \<Rightarrow> map_option (Cons (Lit (char_of (digit_value d)))) (parse_tokens ts1))
             else map_option (Cons (Lit (CHR 0x00))) (parse_tokens ts)
         | _ \<Rightarrow> map_option (Cons (Lit (CHR 0x00))) (parse_tokens ts))
      else if is_digit c then
        (case ts of
           Plain d # Plain e # ts2 \<Rightarrow>
             if is_octal c \<and> is_octal d \<and> is_octal e
                \<and> 64 * digit_value c + 8 * digit_value d + digit_value e \<le> 255
             then map_option
                    (Cons (Lit (char_of (64 * digit_value c + 8 * digit_value d + digit_value e))))
                    (parse_tokens ts2)
             else None
         | _ \<Rightarrow> None)
      else (case escape_char c of
              Some e \<Rightarrow> map_option (Cons (Lit e)) (parse_tokens ts)
            | None \<Rightarrow>
                if is_ascii_letter c then None
                else map_option (\<lambda>ps. Lit (CHR 0x5C) # Lit c # ps) (parse_tokens ts)))"
  by pat_completeness auto
termination
  by (relation "measure length") (auto dest: group_name_shorter)

definition parse_template :: "string \<Rightarrow> piece list option" where
  "parse_template r =
     (case tokenize_template r of None \<Rightarrow> None | Some ts \<Rightarrow> parse_tokens ts)"

text \<open>\<^verbatim>\<open>expand_template\<close>: the replacement for one match \<open>m\<close>.\<close>

fun expand_template :: "piece list \<Rightarrow> string \<Rightarrow> string" where
  "expand_template [] m = []"
| "expand_template (Lit c # ps) m = c # expand_template ps m"
| "expand_template (Whole # ps) m = m @ expand_template ps m"

text \<open>
  \<^verbatim>\<open>re.sub(re.escape(w), r, text, flags=re.IGNORECASE)\<close> for a parsed template
  \<open>r\<close>: the scan goes from left to right, a match is replaced by the expansion of
  \<open>r\<close> for it and the scan goes on behind it; where nothing matches the character is
  copied. The empty pattern matches once before every character and once at the
  end.
\<close>

function re_sub_literal :: "string \<Rightarrow> piece list \<Rightarrow> string \<Rightarrow> string" where
  "re_sub_literal w r [] = (if w = [] then expand_template r [] else [])"
| "re_sub_literal w r (x # xs) =
     (if w = [] then expand_template r [] @ x # re_sub_literal w r xs
      else if ci_prefix w (x # xs)
      then expand_template r (take (length w) (x # xs))
           @ re_sub_literal w r (drop (length w) (x # xs))
      else x # re_sub_literal w r xs)"
  by pat_completeness auto
termination
  by (relation "measure (\<lambda>(w, r, t). length t)") auto

text \<open>
  \<open>TemplateError\<close> is the exception of the template parser (\<^verbatim>\<open>re.error\<close>, or
  \<^verbatim>\<open>IndexError\<close> for a group name that is an identifier); \<open>KeyError\<close> is the
  lookup of a key that a mistake dict lacks.
\<close>

datatype error = TemplateError | KeyError

definition re_sub_ignorecase :: "string \<Rightarrow> string \<Rightarrow> string \<Rightarrow> error + string" where
  "re_sub_ignorecase w r text =
     (case parse_template r of
        None \<Rightarrow> Inl TemplateError
      | Some pieces \<Rightarrow> Inr (re_sub_literal w pieces text))"

text \<open>
  \<^verbatim>\<open>fix_common_mistakes\<close>: the mistakes are found once, in the text as it comes
  in, and then replaced one after the other in the text as it stands.
\<close>

fun replace_mistakes :: "issue list \<Rightarrow> string \<Rightarrow> error + string" where
  "replace_mistakes [] text = Inr text"
| "replace_mistakes (mistake # ms) text =
     (case (wrong_term mistake, correct_term mistake) of
        (Some wrong, Some correct) \<Rightarrow>
          (case re_sub_ignorecase wrong correct text of
             Inl e \<Rightarrow> Inl e
           | Inr text' \<Rightarrow> replace_mistakes ms text')
      | _ \<Rightarrow> Inl KeyError)"

definition fix_common_mistakes :: "terminology \<Rightarrow> string \<Rightarrow> string \<Rightarrow> error + string" where
  "fix_common_mistakes d text target_lang =
     replace_mistakes (check_common_mistakes d text target_lang) text"

subsection \<open>Whole-word substitution\<close>

text \<open>
  \<^verbatim>\<open>re.sub(r'\b' + re.escape(w) + r'\b', c, text, flags=re.IGNORECASE)\<close> for a
  non-empty literal \<open>w\<close>. \<^verbatim>\<open>\b\<close> holds between two positions when exactly one of
  the characters before and after is a word character, the ends of the text
  counting as non-word. The scan carries whether the character before the current
  position is a word character.
\<close>

definition word_start :: "string \<Rightarrow> bool" where
  "word_start t = (case t of [] \<Rightarrow> False | x # _ \<Rightarrow> is_word x)"

definition match_word :: "string \<Rightarrow> bool \<Rightarrow> string \<Rightarrow> bool" where
  "match_word w prev t =
     (w \<noteq> [] \<and> prev \<noteq> word_start t \<and> ci_prefix w t
      \<and> is_word (last (take (length w) t)) \<noteq> word_start (drop (length w) t))"

function re_sub_word :: "string \<Rightarrow> string \<Rightarrow> bool \<Rightarrow> string \<Rightarrow> string" where
  "re_sub_word w c prev [] = []"
| "re_sub_word w c prev (x # xs) =
     (if match_word w prev (x # xs)
      then c @ re_sub_word w c (is_word (last (take (length w) (x # xs))))
                 (drop (length w) (x # xs))
      else x # re_sub_word w c (is_word x) xs)"
  by pat_completeness auto
termination
  by (relation "measure (\<lambda>(w, c, b, t). length t)") (auto simp: match_word_def)

text \<open>The table \<^verbatim>\<open>common_fixes\<close> of \<^verbatim>\<open>apply_terminology_fixes\<close>, in its order.\<close>

definition common_fixes :: "(string \<times> string) list" where
  "common_fixes =
     [(''introduction'', ''login''),
      (''exit'', ''logout''),
      (''mercenary kurds'', ''exchange rates''),
      (''bayiers'', ''dealers''),
      (''varient'', ''variant''),
      (''copyed'', ''copied''),
      (''absorptions'', ''subscriptions''),
      (''resorptionen'', ''abonnements'')]"

text \<open>
  The loop over the table: whether a wrong word is tried is decided on
  \<^verbatim>\<open>text_lower\<close>, the lower-case form of the text as it came in; the substitution
  itself works on the text as it stands.
\<close>

fun apply_fixes :: "string \<Rightarrow> (string \<times> string) list \<Rightarrow> string \<Rightarrow> string" where
  "apply_fixes text_lower [] text = text"
| "apply_fixes text_lower ((wrong, correct) # fixes) text =
     (if contains wrong text_lower
      then apply_fixes text_lower fixes (re_sub_word wrong correct False text)
      else apply_fixes text_lower fixes text)"

text \<open>
  \<^verbatim>\<open>apply_terminology_fixes\<close> first builds \<^verbatim>\<open>reverse_terminology\<close> from the
  dictionary of the language pair and then does not read it.
\<close>

definition reverse_terminology ::
  "terminology \<Rightarrow> string \<Rightarrow> string \<Rightarrow> (string \<rightharpoonup> string)" where
  "reverse_terminology d source_lang target_lang =
     (if source_lang = ''turkish'' \<and> target_lang = ''english''
      then fold (\<lambda>(tr_term, en_term) m. m(py_lower tr_term \<mapsto> py_lower en_term))
             (turkish_to_english d) Map.empty
      else if source_lang = ''english'' \<and> target_lang = ''german''
      then fold (\<lambda>(en_term, de_term) m. m(py_lower en_term \<mapsto> py_lower de_term))
             (english_to_german d) Map.empty
      else Map.empty)"

definition apply_terminology_fixes ::
  "terminology \<Rightarrow> string \<Rightarrow> string \<Rightarrow> string \<Rightarrow> string" where
  "apply_terminology_fixes d text source_lang target_lang =
     (let reverse = reverse_terminology d source_lang target_lang;
          text_lower = py_lower text
      in apply_fixes text_lower common_fixes text)"

subsection \<open>Capitalization\<close>

text \<open>
  \<^verbatim>\<open>re.sub(r'(^|[.!?]\s+)([a-z])', lambda m: m.group(1) + m.group(2).upper(), text)\<close>.
  At the start of the text the first alternative matches a letter \<^verbatim>\<open>a-z\<close>; at any
  position the second alternative matches one of \<^verbatim>\<open>. ! ?\<close>, the whole run of
  whitespace behind it, which must not be empty, and a letter \<^verbatim>\<open>a-z\<close> right behind
  the run. A match is copied with its letter in upper case and the scan goes on
  behind it; where nothing matches the character is copied.
\<close>

definition is_end_mark :: "char \<Rightarrow> bool" where
  "is_end_mark c = (c = CHR ''.'' \<or> c = CHR ''!'' \<or> c = CHR ''?'')"

definition sentence_match :: "string \<Rightarrow> bool" where
  "sentence_match cs =
     (takeWhile is_space cs \<noteq> []
      \<and> (case dropWhile is_space cs of [] \<Rightarrow> False | l # _ \<Rightarrow> is_az l))"

function capitalize_scan :: "bool \<Rightarrow> string \<Rightarrow> string" where
  "capitalize_scan at_start [] = []"
| "capitalize_scan at_start (c # cs) =
     (if at_start \<and> is_az c then upper_az c # capitalize_scan False cs
      else if is_end_mark c \<and> sentence_match cs
      then c # takeWhile is_space cs
           @ upper_az (hd (dropWhile is_space cs))
           # capitalize_scan False (tl (dropWhile is_space cs))
      else c # capitalize_scan False cs)"
  by pat_completeness auto
termination
proof (relation "measure (\<lambda>(b, t). length t)")
  have shorter: "length (tl (dropWhile is_space cs)) < Suc (length cs)" for cs
    using length_dropWhile_le [of is_space cs] by simp
  show "\<And>at_start c cs.
       \<lbrakk>\<not> (at_start \<and> is_az c); is_end_mark c \<and> sentence_match cs\<rbrakk>
       \<Longrightarrow> ((False, tl (dropWhile is_space cs)), at_start, c # cs)
           \<in> measure (\<lambda>(b, t). length t)"
    using shorter by simp
qed auto

definition normalize_capitalization :: "string \<Rightarrow> string" where
  "normalize_capitalization text = capitalize_scan True text"

subsection \<open>The three stages and the score\<close>

record translation_record =
  original :: string
  raw_translation :: string
  processed_translation :: string
  quality_of :: quality
  improved :: bool
  method_used :: "string option"

definition process_translation ::
  "terminology \<Rightarrow> string \<Rightarrow> string \<Rightarrow> string \<Rightarrow> string \<Rightarrow> error + translation_record" where
  "process_translation d orig translated source_lang target_lang =
     (case fix_common_mistakes d translated target_lang of
        Inl e \<Rightarrow> Inl e
      | Inr processed1 \<Rightarrow>
          (let processed2 = apply_terminology_fixes d processed1 source_lang target_lang;
               processed = normalize_capitalization processed2;
               q = calculate_quality_score d orig processed target_lang
           in Inr \<lparr>original = orig, raw_translation = translated,
                   processed_translation = processed, quality_of = q,
                   improved = (processed \<noteq> translated), method_used = None\<rparr>))"

section \<open>HybridTranslator\<close>

text \<open>
  The neural model is a function from text to text: \<open>tf s\<close> stands for
  tokenizing \<open>s\<close>, \<^verbatim>\<open>model.generate\<close> and \<^verbatim>\<open>tokenizer.decode\<close>. The code trims
  what it returns.
\<close>

subsection \<open>Splitting at tags\<close>

text \<open>
  \<^verbatim>\<open>re.split(r'(<[^>]*>)', text)\<close>. A match starts at a \<^verbatim>\<open><\<close> that has a
  \<^verbatim>\<open>>\<close> somewhere behind it and ends at the first such \<^verbatim>\<open>>\<close>. The result
  alternates the text between the matches (possibly empty) and the matches, and
  ends with the text behind the last match. The first argument is the text read
  since the last match.
\<close>

function split_tags :: "string \<Rightarrow> string \<Rightarrow> string list" where
  "split_tags cur [] = [cur]"
| "split_tags cur (c # cs) =
     (if c = CHR ''<'' \<and> CHR ''>'' \<in> set cs
      then cur # (c # takeWhile (\<lambda>x. x \<noteq> CHR ''>'') cs @ ''>'')
           # split_tags [] (tl (dropWhile (\<lambda>x. x \<noteq> CHR ''>'') cs))
      else split_tags (cur @ [c]) cs)"
  by pat_completeness auto
termination
proof (relation "measure (\<lambda>(cur, t). length t)")
  have shorter: "length (tl (dropWhile P cs)) < Suc (length cs)" for P and cs :: string
    using length_dropWhile_le [of P cs] by simp
  show "\<And>cur c cs. c = CHR ''<'' \<and> CHR ''>'' \<in> set cs
       \<Longrightarrow> (([], tl (dropWhile (\<lambda>x. x \<noteq> CHR ''>'') cs)), cur, c # cs)
           \<in> measure (\<lambda>(cur, t). length t)"
    using shorter by simp
qed auto

definition re_split_tags :: "string \<Rightarrow> string list" where
  "re_split_tags text = split_tags [] text"

subsection \<open>Translating around tags\<close>

text \<open>
  The loop of \<^verbatim>\<open>translate_text_with_html\<close> over the parts. Beside
  \<^verbatim>\<open>translated_parts\<close> the function returns the texts it handed to the model,
  in order.
\<close>

definition looks_like_tag :: "string \<Rightarrow> bool" where
  "looks_like_tag part = (starts_with (CHR ''<'') part \<and> ends_with (CHR ''>'') part)"

fun translate_parts :: "(string \<Rightarrow> string) \<Rightarrow> string list \<Rightarrow> string list \<times> string list" where
  "translate_parts tf [] = ([], [])"
| "translate_parts tf (part # parts) =
     (let (translated_parts, calls) = translate_parts tf parts
      in if part = [] then (translated_parts, calls)
         else if looks_like_tag part then (part # translated_parts, calls)
         else (let clean_text = py_strip part
               in if clean_text \<noteq> []
                  then (let translated0 = py_strip (tf clean_text);
                            translated1 =
                              (if starts_with (CHR '' '') part then CHR '' '' # translated0
                               else translated0);
                            translated2 =
                              (if ends_with (CHR '' '') part then translated1 @ '' ''
                               else translated1)
                        in (translated2 # translated_parts, clean_text # calls))
                  else (part # translated_parts, calls)))"

definition translate_text_with_html :: "(string \<Rightarrow> string) \<Rightarrow> string \<Rightarrow> string" where
  "translate_text_with_html tf text =
     (if CHR ''<'' \<notin> set text then py_strip (tf text)
      else concat (fst (translate_parts tf (re_split_tags text))))"

definition translate_text_hybrid ::
  "terminology \<Rightarrow> (string \<Rightarrow> string) \<Rightarrow> string \<Rightarrow> string \<Rightarrow> string
     \<Rightarrow> error + translation_record" where
  "translate_text_hybrid d tf text source_lang target_lang =
     (let model_translation =
            (if CHR ''<'' \<in> set text then translate_text_with_html tf text
             else py_strip (tf text))
      in case process_translation d text model_translation source_lang target_lang of
           Inl e \<Rightarrow> Inl e
         | Inr result \<Rightarrow> Inr (result\<lparr>method_used := Some ''model+terminology_postprocess''\<rparr>))"

subsection \<open>Walking a JSON document\<close>

text \<open>
  A value as \<^verbatim>\<open>json.load\<close> returns it: a dict is the list of its items in
  insertion order, and the numbers are Python's \<^verbatim>\<open>int\<close> and \<^verbatim>\<open>float\<close>. A float
  is a double: a finite one is its mantissa and its binary exponent, and
  \<^verbatim>\<open>json.load\<close> also reads \<^verbatim>\<open>Infinity\<close>, \<^verbatim>\<open>-Infinity\<close> and \<^verbatim>\<open>NaN\<close>. Nothing is
  computed with a float here.
\<close>

datatype pyfloat = Finite int int | Infinity bool | NaN

datatype json =
    JObject "(string \<times> json) list"
  | JArray "json list"
  | JString string
  | JInt int
  | JFloat pyfloat
  | JBool bool
  | JNull

text \<open>
  \<^verbatim>\<open>translate_json_hybrid\<close>. The dict and the list comprehension evaluate their
  elements from left to right, and the first exception ends the walk.
\<close>

fun translate_json_hybrid ::
    "terminology \<Rightarrow> (string \<Rightarrow> string) \<Rightarrow> json \<Rightarrow> string \<Rightarrow> string \<Rightarrow> error + json"
  and translate_items ::
    "terminology \<Rightarrow> (string \<Rightarrow> string) \<Rightarrow> (string \<times> json) list \<Rightarrow> string \<Rightarrow> string
       \<Rightarrow> error + (string \<times> json) list"
  and translate_elements ::
    "terminology \<Rightarrow> (string \<Rightarrow> string) \<Rightarrow> json list \<Rightarrow> string \<Rightarrow> string
       \<Rightarrow> error + json list" where
  "translate_json_hybrid d tf (JObject kvs) s t =
     (case translate_items d tf kvs s t of Inl e \<Rightarrow> Inl e | Inr kvs' \<Rightarrow> Inr (JObject kvs'))"
| "translate_json_hybrid d tf (JArray xs) s t =
     (case translate_elements d tf xs s t of Inl e \<Rightarrow> Inl e | Inr xs' \<Rightarrow> Inr (JArray xs'))"
| "translate_json_hybrid d tf (JString x) s t =
     (case translate_text_hybrid d tf x s t of
        Inl e \<Rightarrow> Inl e
      | Inr result \<Rightarrow> Inr (JString (processed_translation result)))"
| "translate_json_hybrid d tf (JInt n) s t = Inr (JInt n)"
| "translate_json_hybrid d tf (JFloat f) s t = Inr (JFloat f)"
| "translate_json_hybrid d tf (JBool b) s t = Inr (JBool b)"
| "translate_json_hybrid d tf JNull s t = Inr JNull"
| "translate_items d tf [] s t = Inr []"
| "translate_items d tf ((k, v) # kvs) s t =
     (case translate_json_hybrid d tf v s t of
        Inl e \<Rightarrow> Inl e
      | Inr v' \<Rightarrow>
          (case translate_items d tf kvs s t of
             Inl e \<Rightarrow> Inl e
           | Inr kvs' \<Rightarrow> Inr ((k, v') # kvs')))"
| "translate_elements d tf [] s t = Inr []"
| "translate_elements d tf (x # xs) s t =
     (case translate_json_hybrid d tf x s t of
        Inl e \<Rightarrow> Inl e
      | Inr x' \<Rightarrow>
          (case translate_elements d tf xs s t of
             Inl e \<Rightarrow> Inl e
           | Inr xs' \<Rightarrow> Inr (x' # xs')))"

subsection \<open>What the statements about the driver speak about\<close>

text \<open>
  A tag span is \<^verbatim>\<open><\<close>, any characters other than \<^verbatim>\<open>>\<close>, and \<^verbatim>\<open>>\<close>. The spans
  of a text alternate when they are a non-tag span, a tag span, a non-tag span and
  so on, ending with a non-tag span, where a non-tag span is one that the loop
  does not take for a tag. \<open>emit_span\<close> is what the specification says is emitted
  for one span.
\<close>

definition is_tag_span :: "string \<Rightarrow> bool" where
  "is_tag_span p =
     (case p of
        [] \<Rightarrow> False
      | c # r \<Rightarrow> c = CHR ''<'' \<and> r \<noteq> [] \<and> last r = CHR ''>'' \<and> CHR ''>'' \<notin> set (butlast r))"

fun spans_alternate :: "string list \<Rightarrow> bool" where
  "spans_alternate [] = False"
| "spans_alternate [p] = (\<not> looks_like_tag p)"
| "spans_alternate (p # q # rest) =
     (\<not> looks_like_tag p \<and> is_tag_span q \<and> spans_alternate rest)"

definition emit_span :: "(string \<Rightarrow> string) \<Rightarrow> string \<Rightarrow> string" where
  "emit_span tf p =
     (if is_tag_span p then p
      else if py_strip p = [] then p
      else (if starts_with (CHR '' '') p then '' '' else [])
           @ py_strip (tf (py_strip p))
           @ (if ends_with (CHR '' '') p then '' '' else []))"

text \<open>The invariant of the split: no \<^verbatim>\<open><\<close> read since the last match has a
  \<^verbatim>\<open>>\<close> behind it.\<close>

definition open_tail :: "string \<Rightarrow> string \<Rightarrow> bool" where
  "open_tail cur t =
     (\<forall>pre post. cur = pre @ CHR ''<'' # post \<longrightarrow> CHR ''>'' \<notin> set (post @ t))"






definition rejecting_terminology :: terminology where
  "rejecting_terminology =
     \<lparr>turkish_to_english = [], english_to_german = [],
      common_mistakes = [(''english'', [(''sign'' @ [CHR 0x5C] @ ''out'', [''exit''])])]\<rparr>"


subsection \<open>The split and the loop over the parts\<close>

lemma takeWhile_dropWhile_mark:
  "c \<in> set cs \<Longrightarrow> takeWhile (\<lambda>x. x \<noteq> c) cs @ c # tl (dropWhile (\<lambda>x. x \<noteq> c) cs) = cs"
  by (induction cs) auto

lemma concat_split_tags: "concat (split_tags cur t) = cur @ t"
  by (induction cur t rule: split_tags.induct) (auto simp: takeWhile_dropWhile_mark)

lemma starts_with_iff: "starts_with c s \<longleftrightarrow> s \<noteq> [] \<and> hd s = c"
  by (cases s) (auto simp: starts_with_def)

lemma ends_with_iff: "ends_with c s \<longleftrightarrow> s \<noteq> [] \<and> last s = c"
  by (cases s rule: rev_cases) (auto simp: ends_with_def starts_with_def)

lemma is_tag_span_looks: "is_tag_span p \<Longrightarrow> looks_like_tag p"
  by (cases p) (auto simp: is_tag_span_def looks_like_tag_def starts_with_iff ends_with_iff)

lemma tag_is_tag_span:
  "CHR ''>'' \<in> set cs \<Longrightarrow> is_tag_span (CHR ''<'' # takeWhile (\<lambda>x. x \<noteq> CHR ''>'') cs @ ''>'')"
  by (auto simp: is_tag_span_def dest: set_takeWhileD)

lemma open_tail_not_tag:
  assumes "open_tail cur t"
  shows "\<not> looks_like_tag cur"
proof
  assume "looks_like_tag cur"
  then obtain post where cur: "cur = CHR ''<'' # post" and l: "last cur = CHR ''>''"
    by (cases cur) (auto simp: looks_like_tag_def starts_with_iff ends_with_iff)
  from cur l have "post \<noteq> []" by auto
  with cur l have "CHR ''>'' \<in> set post"
    by (metis last_ConsR last_in_set)
  moreover from assms cur have "CHR ''>'' \<notin> set (post @ t)"
    unfolding open_tail_def by (metis append_Nil)
  ultimately show False by simp
qed

lemma open_tail_step:
  assumes "open_tail cur (c # cs)" and "\<not> (c = CHR ''<'' \<and> CHR ''>'' \<in> set cs)"
  shows "open_tail (cur @ [c]) cs"
  unfolding open_tail_def
proof (intro allI impI)
  fix pre post
  assume eq: "cur @ [c] = pre @ CHR ''<'' # post"
  show "CHR ''>'' \<notin> set (post @ cs)"
  proof (cases post rule: rev_cases)
    case Nil
    with eq have "c = CHR ''<''" by simp
    with assms(2) Nil show ?thesis by simp
  next
    case (snoc post' x)
    with eq have "cur = pre @ CHR ''<'' # post'" and "x = c"
      by (metis append_assoc append_Cons butlast_snoc, metis append_assoc append_Cons last_snoc)
    with assms(1) have "CHR ''>'' \<notin> set (post' @ c # cs)"
      unfolding open_tail_def by blast
    with snoc \<open>x = c\<close> show ?thesis by simp
  qed
qed

lemma open_tail_Nil: "open_tail [] t"
  by (simp add: open_tail_def)

lemma split_tags_alternate: "open_tail cur t \<Longrightarrow> spans_alternate (split_tags cur t)"
proof (induction cur t rule: split_tags.induct)
  case (1 cur)
  then show ?case by (simp add: open_tail_not_tag)
next
  case (2 cur c cs)
  show ?case
  proof (cases "c = CHR ''<'' \<and> CHR ''>'' \<in> set cs")
    case True
    then show ?thesis
      using 2 by (simp add: open_tail_not_tag tag_is_tag_span open_tail_Nil)
  next
    case False
    then show ?thesis
      using 2 open_tail_step [of cur c cs] by auto
  qed
qed

lemma alternate_tests_agree:
  "spans_alternate ps \<Longrightarrow> p \<in> set ps \<Longrightarrow> looks_like_tag p = is_tag_span p"
  by (induction ps rule: spans_alternate.induct) (auto dest: is_tag_span_looks)

lemma emit_span_Nil: "emit_span tf [] = []"
  by (simp add: emit_span_def py_strip_def is_tag_span_def)

lemma translate_parts_emit:
  "(\<And>p. p \<in> set ps \<Longrightarrow> looks_like_tag p = is_tag_span p) \<Longrightarrow>
   translate_parts tf ps =
     (map (emit_span tf) (filter (\<lambda>p. p \<noteq> []) ps),
      map py_strip (filter (\<lambda>p. \<not> is_tag_span p \<and> py_strip p \<noteq> []) ps))"
proof (induction ps)
  case Nil
  then show ?case by simp
next
  case (Cons p ps)
  then have IH: "translate_parts tf ps =
     (map (emit_span tf) (filter (\<lambda>p. p \<noteq> []) ps),
      map py_strip (filter (\<lambda>p. \<not> is_tag_span p \<and> py_strip p \<noteq> []) ps))"
    and same: "looks_like_tag p = is_tag_span p"
    by simp_all
  have blank: "py_strip [] = []" by (simp add: py_strip_def)
  have tag_not_blank: "is_tag_span p \<Longrightarrow> p \<noteq> []"
    by (auto simp: is_tag_span_def)
  show ?case
    using tag_not_blank by (auto simp: IH same Let_def emit_span_def blank)
qed

lemma concat_emit_filter:
  "concat (map (emit_span tf) (filter (\<lambda>p. p \<noteq> []) ps)) = concat (map (emit_span tf) ps)"
  by (induction ps) (auto simp: emit_span_Nil)

lemmas evaluate_html =
  translate_text_with_html_def re_split_tags_def looks_like_tag_def starts_with_def
  ends_with_def py_strip_def is_space_def Let_def

subsection \<open>Claim about the structure-preserving driver\<close>

text \<open>
  C7: for a text that holds \<^verbatim>\<open><\<close>, the split loses nothing and alternates
  non-tag and tag spans; the result is the concatenation, in order, of what
  \<open>emit_span\<close> gives for each span (a tag span as it is, a whitespace-only span as
  it is, any other span as the trimmed translation of its trimmed text with one
  space in front if the span started with a space and one behind if it ended with
  one); and the model is handed exactly the trimmed texts of the non-tag spans that
  are not blank. For \<open><b>Merhaba</b> d\<udieresis>nya\<close> the result is \<open><b>\<close>, the
  translation of \<open>Merhaba\<close>, \<open></b>\<close>, a space and the translation of
  \<open>d\<udieresis>nya\<close>, whatever the model returns.
\<close>

theorem html_spans_pass_through:
  assumes "CHR ''<'' \<in> set text"
  shows "concat (re_split_tags text) = text
    \<and> spans_alternate (re_split_tags text)
    \<and> translate_text_with_html tf text = concat (map (emit_span tf) (re_split_tags text))
    \<and> snd (translate_parts tf (re_split_tags text))
        = map py_strip
            (filter (\<lambda>p. \<not> is_tag_span p \<and> py_strip p \<noteq> []) (re_split_tags text))
    \<and> translate_text_with_html tf (''<b>Merhaba</b> d'' @ [CHR 0xFC] @ ''nya'')
        = ''<b>'' @ py_strip (tf ''Merhaba'') @ ''</b>'' @ '' ''
          @ py_strip (tf (''d'' @ [CHR 0xFC] @ ''nya''))"
proof -
  have alt: "spans_alternate (re_split_tags text)"
    unfolding re_split_tags_def by (rule split_tags_alternate) (rule open_tail_Nil)
  have parts: "translate_parts tf (re_split_tags text) =
     (map (emit_span tf) (filter (\<lambda>p. p \<noteq> []) (re_split_tags text)),
      map py_strip
        (filter (\<lambda>p. \<not> is_tag_span p \<and> py_strip p \<noteq> []) (re_split_tags text)))"
    by (rule translate_parts_emit) (rule alternate_tests_agree [OF alt])
  have whole: "concat (re_split_tags text) = text"
    by (simp add: re_split_tags_def concat_split_tags)
  have out: "translate_text_with_html tf text
      = concat (map (emit_span tf) (re_split_tags text))"
    using assms by (simp add: parts translate_text_with_html_def concat_emit_filter)
  have example: "translate_text_with_html tf (''<b>Merhaba</b> d'' @ [CHR 0xFC] @ ''nya'')
        = ''<b>'' @ py_strip (tf ''Merhaba'') @ ''</b>'' @ '' ''
          @ py_strip (tf (''d'' @ [CHR 0xFC] @ ''nya''))"
    by (simp add: evaluate_html)
  from whole alt out parts example show ?thesis by simp
qed

theorem html_spans_pass_through_witness:
  "CHR ''<'' \<in> set ''<p> Merhaba <br/>  </p>''
   \<and> re_split_tags ''<p> Merhaba <br/>  </p>''
       = [[], ''<p>'', '' Merhaba '', ''<br/>'', ''  '', ''</p>'', []]
   \<and> translate_text_with_html (\<lambda>x. '' Hello  '') ''<p> Merhaba <br/>  </p>''
       = ''<p> Hello <br/>  </p>''
   \<and> snd (translate_parts (\<lambda>x. '' Hello  '') (re_split_tags ''<p> Merhaba <br/>  </p>''))
       = [''Merhaba'']"
proof -
  have mark: "CHR ''<'' \<in> set ''<p> Merhaba <br/>  </p>''"
    by simp
  have spans: "re_split_tags ''<p> Merhaba <br/>  </p>''
       = [[], ''<p>'', '' Merhaba '', ''<br/>'', ''  '', ''</p>'', []]"
    by (simp add: re_split_tags_def)
  from html_spans_pass_through [OF mark, of "\<lambda>x. '' Hello  ''"] mark spans show ?thesis
    by (simp add: emit_span_def is_tag_span_def evaluate_html)
qed

subsection \<open>The walk keeps the shape\<close>









subsection \<open>Claim about the document walk\<close>

text \<open>
  C1, as the code has it. The claim lets the walk return an output for every JSON
  value. The walk catches nothing: when the mistake-fixing stage hands \<^verbatim>\<open>re.sub\<close>
  a correct term that is not a valid replacement template (here \<open>sign\out\<close>, whose
  \<^verbatim>\<open>\o\<close> is a bad escape) for a wrong variant found in a leaf's translation, the
  exception ends the walk and there is no output.
\<close>

theorem translate_json_hybrid_returns_counterexample:
  "translate_json_hybrid rejecting_terminology (\<lambda>x. ''exit'')
     (JArray [JInt 1, JString ''cikis'']) ''turkish'' ''english'' = Inl TemplateError"
  by code_simp



subsection \<open>What the statement about capitalization speaks about\<close>

text \<open>
  A position is a sentence start when the text before it is empty or ends with one
  of \<^verbatim>\<open>. ! ?\<close> followed by one or more whitespace characters. The run below reads
  the text once from the left and keeps what it has just seen: nothing yet, an end
  mark, an end mark and whitespace, or anything else.
\<close>

definition sentence_start :: "string \<Rightarrow> bool" where
  "sentence_start pre =
     (pre = [] \<or>
      (is_space (last pre)
       \<and> (case dropWhile is_space (rev pre) of [] \<Rightarrow> False | m # _ \<Rightarrow> is_end_mark m)))"

datatype scan_state = Start | Mark | MarkSpace | Other

definition next_state :: "scan_state \<Rightarrow> char \<Rightarrow> scan_state" where
  "next_state st c =
     (if is_end_mark c then Mark
      else if is_space c \<and> (st = Mark \<or> st = MarkSpace) then MarkSpace
      else Other)"

fun capitalize_run :: "scan_state \<Rightarrow> string \<Rightarrow> string" where
  "capitalize_run st [] = []"
| "capitalize_run st (c # cs) =
     (if is_az c \<and> (st = Start \<or> st = MarkSpace) then upper_az c else c)
     # capitalize_run (next_state st c) cs"

definition ends_mark_spaces :: "string \<Rightarrow> bool" where
  "ends_mark_spaces pre =
     (case dropWhile is_space (rev pre) of [] \<Rightarrow> False | m # _ \<Rightarrow> is_end_mark m)"

subsection \<open>The scan as one pass\<close>

lemma az_not_mark: "is_az c \<Longrightarrow> \<not> is_end_mark c"
  by (auto simp: is_az_def is_end_mark_def)

lemma az_not_space: "is_az c \<Longrightarrow> \<not> is_space c"
  by (auto simp: is_az_def is_space_def Let_def)

lemma mark_not_space: "is_end_mark c \<Longrightarrow> \<not> is_space c"
  by (auto simp: is_end_mark_def is_space_def)

lemma run_spaces:
  "\<forall>x \<in> set ws. is_space x \<Longrightarrow> st = Mark \<or> st = MarkSpace \<Longrightarrow> ws \<noteq> [] \<Longrightarrow>
   capitalize_run st (ws @ r) = ws @ capitalize_run MarkSpace r"
proof (induction ws arbitrary: st)
  case Nil
  then show ?case by simp
next
  case (Cons w ws)
  then have w: "is_space w" "\<not> is_az w" "\<not> is_end_mark w"
    using az_not_space mark_not_space by auto
  show ?case
  proof (cases "ws = []")
    case True
    with w Cons.prems show ?thesis by (auto simp: next_state_def)
  next
    case False
    with w Cons show ?thesis by (auto simp: next_state_def)
  qed
qed

lemma run_spaces_other:
  "\<forall>x \<in> set ws. is_space x \<Longrightarrow> st = Start \<or> st = Other \<Longrightarrow> ws \<noteq> [] \<Longrightarrow>
   capitalize_run st (ws @ r) = ws @ capitalize_run Other r"
proof (induction ws arbitrary: st)
  case Nil
  then show ?case by simp
next
  case (Cons w ws)
  then have w: "is_space w" "\<not> is_az w" "\<not> is_end_mark w"
    using az_not_space mark_not_space by auto
  show ?case
  proof (cases "ws = []")
    case True
    with w Cons.prems show ?thesis by (auto simp: next_state_def)
  next
    case False
    with w Cons show ?thesis by (auto simp: next_state_def)
  qed
qed

lemma run_no_sentence:
  assumes "\<not> sentence_match cs"
  shows "capitalize_run Mark cs = capitalize_run Other cs"
proof -
  define ws where "ws = takeWhile is_space cs"
  define r where "r = dropWhile is_space cs"
  have cs: "cs = ws @ r" and sp: "\<forall>x \<in> set ws. is_space x"
    by (auto simp: ws_def r_def dest: set_takeWhileD)
  have head: "r = [] \<or> \<not> is_space (hd r)"
    unfolding r_def by (metis hd_dropWhile)
  have step: "capitalize_run st1 r = capitalize_run st2 r"
    if "r = [] \<or> (\<not> is_space (hd r) \<and> (is_az (hd r) \<longrightarrow> st1 \<noteq> Start \<and> st1 \<noteq> MarkSpace \<and> st2 \<noteq> Start \<and> st2 \<noteq> MarkSpace))"
    for st1 st2
    using that by (cases r) (auto simp: next_state_def)
  show ?thesis
  proof (cases "ws = []")
    case True
    with cs head show ?thesis by (auto intro: step)
  next
    case False
    with assms have "\<not> (case r of [] \<Rightarrow> False | l # _ \<Rightarrow> is_az l)"
      by (simp add: sentence_match_def ws_def r_def)
    then have "r = [] \<or> \<not> is_az (hd r)"
      by (cases r) auto
    with head have "capitalize_run MarkSpace r = capitalize_run Other r"
      by (auto intro: step)
    with False sp show ?thesis
      unfolding cs by (simp add: run_spaces run_spaces_other)
  qed
qed

lemma scan_is_run:
  "capitalize_scan b t = capitalize_run (if b then Start else Other) t"
proof (induction b t rule: capitalize_scan.induct)
  case (1 at_start)
  then show ?case by simp
next
  case (2 at_start c cs)
  show ?case
  proof (cases "at_start \<and> is_az c")
    case True
    with 2 show ?thesis
      by (auto simp: next_state_def az_not_mark az_not_space)
  next
    case first: False
    show ?thesis
    proof (cases "is_end_mark c \<and> sentence_match cs")
      case True
      define ws where "ws = takeWhile is_space cs"
      define r where "r = dropWhile is_space cs"
      from True have ws: "ws \<noteq> []" and "case r of [] \<Rightarrow> False | l # _ \<Rightarrow> is_az l"
        by (simp_all add: sentence_match_def ws_def r_def)
      then obtain l rest where r: "r = l # rest" and l: "is_az l"
        by (cases r) auto
      have cs: "cs = ws @ l # rest" and sp: "\<forall>x \<in> set ws. is_space x"
        using r by (auto simp: ws_def r_def dest: set_takeWhileD) (metis takeWhile_dropWhile_id)
      have IH: "capitalize_scan False rest = capitalize_run Other rest"
        using 2(2) first True r by (auto simp: r_def)
      have "capitalize_scan at_start (c # cs) = c # ws @ upper_az l # capitalize_scan False rest"
        using first True r by (auto simp: ws_def r_def)
      moreover have "capitalize_run (if at_start then Start else Other) (c # cs)
          = c # ws @ upper_az l # capitalize_run Other rest"
        using first True l ws sp az_not_mark az_not_space
        by (auto simp: cs next_state_def run_spaces)
      ultimately show ?thesis using IH by simp
    next
      case False
      then have "capitalize_run Mark cs = capitalize_run Other cs \<or> \<not> is_end_mark c"
        using run_no_sentence by blast
      with 2(3) first False show ?thesis
        by (auto simp: next_state_def)
    qed
  qed
qed

lemma ends_mark_spaces_snoc:
  "ends_mark_spaces (pre @ [c]) = (if is_space c then ends_mark_spaces pre else is_end_mark c)"
  by (simp add: ends_mark_spaces_def)

lemma ends_mark_spaces_cases:
  "ends_mark_spaces pre \<longleftrightarrow>
     pre \<noteq> [] \<and> (is_end_mark (last pre) \<or> (is_space (last pre) \<and> ends_mark_spaces pre))"
  by (cases pre rule: rev_cases)
    (auto simp: ends_mark_spaces_snoc mark_not_space, simp add: ends_mark_spaces_def)

lemma state_after_prefix:
  "(foldl next_state Start pre = Start \<longleftrightarrow> pre = [])
   \<and> (foldl next_state Start pre = Mark \<longleftrightarrow> pre \<noteq> [] \<and> is_end_mark (last pre))
   \<and> (foldl next_state Start pre = MarkSpace \<longleftrightarrow>
        pre \<noteq> [] \<and> is_space (last pre) \<and> ends_mark_spaces pre)"
proof (induction pre rule: rev_induct)
  case Nil
  then show ?case by simp
next
  case (snoc c pre)
  define st where "st = foldl next_state Start pre"
  have step: "foldl next_state Start (pre @ [c]) = next_state st c"
    by (simp add: st_def)
  have both: "st = Mark \<or> st = MarkSpace \<longleftrightarrow> ends_mark_spaces pre"
    using snoc ends_mark_spaces_cases [of pre] unfolding st_def by auto
  have "next_state st c \<noteq> Start"
    by (simp add: next_state_def)
  moreover have "next_state st c = Mark \<longleftrightarrow> is_end_mark c"
    by (simp add: next_state_def)
  moreover have "next_state st c = MarkSpace \<longleftrightarrow> is_space c \<and> ends_mark_spaces (pre @ [c])"
    using both mark_not_space [of c] by (auto simp: next_state_def ends_mark_spaces_snoc)
  ultimately show ?case
    unfolding step by simp
qed

lemma sentence_start_state:
  "sentence_start pre \<longleftrightarrow>
     foldl next_state Start pre = Start \<or> foldl next_state Start pre = MarkSpace"
  using state_after_prefix [of pre]
  by (auto simp: sentence_start_def ends_mark_spaces_def)

lemma length_capitalize_run: "length (capitalize_run st t) = length t"
  by (induction t arbitrary: st) auto

lemma capitalize_run_nth:
  "i < length t \<Longrightarrow>
   capitalize_run st t ! i =
     (if is_az (t ! i)
         \<and> (foldl next_state st (take i t) = Start \<or> foldl next_state st (take i t) = MarkSpace)
      then upper_az (t ! i) else t ! i)"
proof (induction t arbitrary: st i)
  case Nil
  then show ?case by simp
next
  case (Cons c cs)
  show ?case
  proof (cases i)
    case 0
    then show ?thesis by auto
  next
    case (Suc k)
    with Cons.prems have "k < length cs" by simp
    from Cons.IH [OF this, of "next_state st c"] Suc show ?thesis by auto
  qed
qed

lemmas evaluate_capitalization =
  normalize_capitalization_def is_az_def upper_az_def is_end_mark_def sentence_match_def
  is_space_def char_of_eq_iff sentence_start_def

subsection \<open>Claim about capitalization\<close>

text \<open>
  C6, as the code has it. The claim uppercases the first letter of the string and
  the first letter that follows an end mark and whitespace. The pattern takes a
  letter only where it stands right at the start or right behind the whitespace:
  the first letter of \<open> hello\<close>, behind a space, and the first letter behind
  \<open>ok. \<close> in \<open>ok. (then) go\<close>, behind a bracket, stay as they are.
\<close>

theorem first_letter_uppercased_counterexample:
  "normalize_capitalization '' hello'' = '' hello''
   \<and> normalize_capitalization ''ok. (then) go'' = ''Ok. (then) go''"
  by (simp add: evaluate_capitalization)

text \<open>
  C6, amended: the result has the length of the text; the character at a position
  is put in upper case when it is a letter \<^verbatim>\<open>a-z\<close> and the position is a sentence
  start (index 0, or right behind one of \<^verbatim>\<open>. ! ?\<close> and one or more whitespace
  characters); every other character is unchanged. In particular
  \<open>hello world. how are you?\<close> becomes \<open>Hello world. How are you?\<close>.
\<close>

theorem capitalization_at_sentence_starts:
  "length (normalize_capitalization t) = length t
   \<and> (\<forall>i < length t.
        normalize_capitalization t ! i =
          (if is_az (t ! i) \<and> sentence_start (take i t) then upper_az (t ! i) else t ! i))
   \<and> normalize_capitalization ''hello world. how are you?'' = ''Hello world. How are you?''"
proof -
  have ex: "normalize_capitalization ''hello world. how are you?'' = ''Hello world. How are you?''"
    by (simp add: evaluate_capitalization)
  show ?thesis
    using ex
    by (simp add: normalize_capitalization_def scan_is_run length_capitalize_run
        capitalize_run_nth sentence_start_state)
qed

theorem capitalization_at_sentence_starts_witness:
  "(4::nat) < length ''hi.  you''
   \<and> is_az (''hi.  you'' ! 5) \<and> sentence_start (take 5 ''hi.  you'')
   \<and> normalize_capitalization ''hi.  you'' ! 5 = CHR ''Y''
   \<and> normalize_capitalization ''hi.  you'' ! 6 = CHR ''o''
   \<and> length (normalize_capitalization ''hi.  you'') = 8"
  using capitalization_at_sentence_starts [of "''hi.  you''"]
  by (simp add: is_az_def upper_az_def is_end_mark_def is_space_def char_of_eq_iff
      sentence_start_def)

end
